theory Spec2Isabelle
  imports Main "HOL-Library.Word"
begin

section \<open>The progress and digest instrumentation (statuswriter.go)\<close>

type_synonym byte = "8 word"
type_synonym int64 = "64 word"

text \<open>
  The field \<^verbatim>\<open>sha256 hash.Hash\<close> is an object of Go's standard library. It is
  modelled by its history: the byte slices handed to its \<^verbatim>\<open>Write\<close> method, oldest
  first. The digest that \<^verbatim>\<open>Sum\<close> returns depends on the concatenation of that history
  only; the compression function itself is a parameter wherever a digest is read.
\<close>

datatype hash = Hash (writes: "byte list list")

definition sha256_New :: hash where
  "sha256_New = Hash []"

definition hash_Write :: "hash \<Rightarrow> byte list \<Rightarrow> hash" where
  "hash_Write h p = Hash (writes h @ [p])"

definition hash_Sum :: "(byte list \<Rightarrow> byte list) \<Rightarrow> hash \<Rightarrow> byte list" where
  "hash_Sum H h = H (concat (writes h))"

text \<open>
  \<^verbatim>\<open>type StatusWriter struct\<close>. The fields \<^verbatim>\<open>last\<close> and \<^verbatim>\<open>total\<close> are \<^verbatim>\<open>int64\<close>:
  64-bit words, read as two's complement by \<open>sint\<close>. The fields \<^verbatim>\<open>p\<close>, \<^verbatim>\<open>format\<close>
  and \<^verbatim>\<open>start\<close> only render the text of a progress line (locale, two decimals,
  elapsed wall-clock time) and are left out together with that text.
\<close>

record StatusWriter =
  sw_last :: int64
  sw_total :: int64
  sw_name :: string
  sw_quiet :: bool
  sw_sha256 :: hash

definition NewStatusWriter :: "string \<Rightarrow> bool \<Rightarrow> StatusWriter" where
  "NewStatusWriter name quiet =
     \<lparr> sw_last = 0, sw_total = 0, sw_name = name, sw_quiet = quiet, sw_sha256 = sha256_New \<rparr>"

text \<open>
  One progress line on standard output: the name and the value of \<^verbatim>\<open>sw.total\<close> it
  reports. (The line shows \<^verbatim>\<open>total / 1000\<close> and the average rate since \<^verbatim>\<open>start\<close> as
  floating-point text.)
\<close>

datatype stdout_line = ProgressLine string int64

text \<open>
  What one call of \<^verbatim>\<open>Write\<close> yields: the two results \<^verbatim>\<open>(int, error)\<close> (a \<^verbatim>\<open>nil\<close>
  error is \<open>None\<close>), the receiver after the call, and the lines printed during it.
  The conversion \<^verbatim>\<open>int64(len(data))\<close> is \<open>of_nat (length data)\<close>; the additions and
  the subtraction are those of \<^verbatim>\<open>int64\<close>, which wrap around, and the comparison is
  signed.
\<close>

record write_result =
  wr_n :: int
  wr_err :: "string option"
  wr_sw :: StatusWriter
  wr_out :: "stdout_line list"

definition Write :: "StatusWriter \<Rightarrow> byte list \<Rightarrow> write_result" where
  "Write sw data =
     (let sw1 = sw\<lparr> sw_total := sw_total sw + of_nat (length data) \<rparr>;
          sw2 = sw1\<lparr> sw_sha256 := hash_Write (sw_sha256 sw1) data \<rparr>
      in if \<not> sw_quiet sw2 \<and> 256 * 1000 \<le> sint (sw_total sw2 - sw_last sw2)
         then \<lparr> wr_n = int (length data), wr_err = None,
                wr_sw = sw2\<lparr> sw_last := sw_total sw2 \<rparr>,
                wr_out = [ProgressLine (sw_name sw2) (sw_total sw2)] \<rparr>
         else \<lparr> wr_n = int (length data), wr_err = None, wr_sw = sw2, wr_out = [] \<rparr>)"

text \<open>
  A sequence of chunks passed to \<^verbatim>\<open>Write\<close>, one call per chunk, in order, as a stream
  copied through the writer is. The result is the writer after the last call and
  everything printed.
\<close>

fun write_all :: "StatusWriter \<Rightarrow> byte list list \<Rightarrow> StatusWriter \<times> stdout_line list" where
  "write_all sw [] = (sw, [])"
| "write_all sw (c # cs) =
     (let r = Write sw c; rest = write_all (wr_sw r) cs
      in (fst rest, wr_out r @ snd rest))"

text \<open>
  The readings of the counter over such a copy, as signed 64-bit values: before the first
  call and after each one.
\<close>

fun counter_readings :: "StatusWriter \<Rightarrow> byte list list \<Rightarrow> int list" where
  "counter_readings sw [] = [sint (sw_total sw)]"
| "counter_readings sw (c # cs) = sint (sw_total sw) # counter_readings (wr_sw (Write sw c)) cs"

section \<open>Build metadata (metadata.go)\<close>

text \<open>
  The structs that \<^verbatim>\<open>encoding/json\<close> fills in. A pointer is an \<open>option\<close>: \<open>None\<close> is
  \<^verbatim>\<open>nil\<close>. The build number is a \<^verbatim>\<open>*float64\<close>; its type is the parameter \<open>'n\<close>, since
  the code only hands it to \<^verbatim>\<open>String\<close>.
\<close>

record Change =
  c_Commit :: "string option"
  c_Summary :: "string option"
  c_Message :: "string option"

record Application =
  app_Name :: "string option"
  app_Sha256 :: "string option"

record Artifact =
  art_Application :: "Application option"

record 'n Build =
  b_ProjectID :: "string option"
  b_ProjectName :: "string option"
  b_Build :: "'n option"
  b_Time :: "string option"
  b_Channel :: "string option"
  b_Promoted :: "bool option"
  b_Changes :: "Change option list"
  b_Artifact :: "Artifact option"
  b_raw :: "byte list"

text \<open>\<^verbatim>\<open>Builds []*Build\<close> is a slice of pointers: an element may be \<^verbatim>\<open>nil\<close>.\<close>

record 'n Builds =
  bs_ProjectID :: "string option"
  bs_ProjectName :: "string option"
  bs_Version :: "string option"
  bs_Builds :: "'n Build option list"
  bs_raw :: "byte list"

text \<open>What stops a Go function instead of a return.\<close>

datatype panic = NilPointerDereference | IndexOutOfRange

text \<open>
  The loop \<^verbatim>\<open>for i, b := range builds.Builds\<close> of \<^verbatim>\<open>FindBuildIndex\<close>, from index \<open>i\<close>
  on. Reading \<^verbatim>\<open>b.Build\<close> through a nil \<^verbatim>\<open>b\<close> panics. The helper \<^verbatim>\<open>String\<close> is not among
  the sources; it is the parameter \<open>String\<close>, a function from the pointer to its text.
\<close>

fun find_from :: "('n option \<Rightarrow> string) \<Rightarrow> string \<Rightarrow> int \<Rightarrow> 'n Build option list \<Rightarrow> panic + int" where
  "find_from String build i [] = Inr (- 1)"
| "find_from String build i (None # bs) = Inl NilPointerDereference"
| "find_from String build i (Some b # bs) =
     (if String (b_Build b) = build then Inr i else find_from String build (i + 1) bs)"

definition FindBuildIndex :: "('n option \<Rightarrow> string) \<Rightarrow> 'n Builds \<Rightarrow> string \<Rightarrow> panic + int" where
  "FindBuildIndex String builds build =
     (if length (bs_Builds builds) = 0 then Inr (- 1)
      else if build = '''' \<or> build = ''latest'' then Inr (int (length (bs_Builds builds)) - 1)
      else if build = ''first'' then Inr 0
      else find_from String build 0 (bs_Builds builds))"

text \<open>
  \<^verbatim>\<open>FindBuild\<close> returns a \<^verbatim>\<open>*Build\<close>: \<open>None\<close> is \<^verbatim>\<open>nil\<close>. Indexing the slice outside
  its bounds panics.
\<close>

definition FindBuild :: "('n option \<Rightarrow> string) \<Rightarrow> 'n Builds \<Rightarrow> string \<Rightarrow> panic + 'n Build option" where
  "FindBuild String builds build =
     (case FindBuildIndex String builds build of
        Inl p \<Rightarrow> Inl p
      | Inr i \<Rightarrow>
          if i < 0 then Inr None
          else if nat i < length (bs_Builds builds) then Inr (bs_Builds builds ! nat i)
          else Inl IndexOutOfRange)"

text \<open>
  Example values: the response that the comments at the head of \<^verbatim>\<open>metadata.go\<close> document
  (project \<^verbatim>\<open>velocity\<close>, version \<^verbatim>\<open>3.2.0-SNAPSHOT\<close>), for a build of a given number and
  for a given list of builds. Build numbers are kept as their decimal text here.
\<close>

definition example_build :: "string \<Rightarrow> string Build" where
  "example_build n =
     \<lparr> b_ProjectID = Some ''velocity'', b_ProjectName = Some ''Velocity'', b_Build = Some n,
       b_Time = Some ''2023-01-02T02:52:34.092Z'', b_Channel = Some ''default'',
       b_Promoted = Some False,
       b_Changes = [Some \<lparr> c_Commit = Some ''1bfeac58b6069a061326d3ced1940e3ccf5feb18'',
                            c_Summary = Some ''all, not just sub'',
                            c_Message = Some (''all, not just sub'' @ [CHR 0x0A]) \<rparr>],
       b_Artifact = Some \<lparr> art_Application = Some
         \<lparr> app_Name = Some (''velocity-3.2.0-SNAPSHOT-'' @ n @ ''.jar''),
           app_Sha256 = Some ''1bf681f954bc4d68a3b395c1eb360a933500f8fd960679bf40e8d05af16e8483'' \<rparr> \<rparr>,
       b_raw = [] \<rparr>"

definition example_builds :: "string Build option list \<Rightarrow> string Builds" where
  "example_builds bs =
     \<lparr> bs_ProjectID = Some ''velocity'', bs_ProjectName = Some ''Velocity'',
       bs_Version = Some ''3.2.0-SNAPSHOT'', bs_Builds = bs, bs_raw = [] \<rparr>"

section \<open>The download (the function Download)\<close>

text \<open>
  \<^verbatim>\<open>Download\<close> is the last of the versions of the function among the sources: the one
  with eight parameters that \<^verbatim>\<open>cmd/papermc.go\<close> calls, which requests
  \<^verbatim>\<open>/v2/projects/...\<close>, creates its writer with \<^verbatim>\<open>NewStatusWriter\<close> and reads
  \<^verbatim>\<open>sw.sha256\<close>. A Go \<^verbatim>\<open>error\<close> is its message; \<^verbatim>\<open>nil\<close> is \<open>None\<close>.

  The function calls the operating system (\<^verbatim>\<open>os.Stat\<close>, \<^verbatim>\<open>os.Remove\<close>) and the
  library \<^verbatim>\<open>dlstream\<close>, which are not part of the repository. They are a world that
  answers these calls and records, oldest first, which of them were made.
\<close>

text \<open>What is at a path: a file with its content, or a directory.\<close>

datatype node = File "byte list" | Dir

text \<open>
  The answer of \<^verbatim>\<open>os.Stat\<close> for a path: an error for which \<^verbatim>\<open>os.IsNotExist\<close> holds, no
  error (something is there), or another error with its text.
\<close>

datatype fs_entry = NotExist | Exists node | StatError string

text \<open>
  One run of \<^verbatim>\<open>dlstream.DownloadStream(ctx, src, dst, sw)\<close>: the slices it hands to the
  writer's \<^verbatim>\<open>Write\<close>, in order, what it leaves at the destination path, and the error
  it returns.
\<close>

record download_run =
  dl_chunks :: "byte list list"
  dl_file :: fs_entry
  dl_err :: "string option"

text \<open>The calls made: \<^verbatim>\<open>os.Stat\<close>, \<^verbatim>\<open>os.Remove\<close>, and the download of a URL to a path.\<close>

datatype effect =
    Stat string
  | Remove string
  | DownloadStream string string

text \<open>
  What is printed to standard output: the progress lines of the writer, and the final
  line \<^verbatim>\<open>Downloaded <src> to <dst> <total> bytes (<rate> KB/s) sha256 <hash>\<close> with its
  source, destination, counter and hash (the rate is floating-point text).
\<close>

datatype printed = Progress stdout_line | Summary string string int64 string

text \<open>
  The world: the answer of \<^verbatim>\<open>os.Stat\<close> by path, the error of \<^verbatim>\<open>os.Remove\<close> by path if
  it fails, the run of \<^verbatim>\<open>DownloadStream\<close> by source and destination, the calls made so
  far and the lines printed so far.
\<close>

record world =
  w_fs :: "string \<Rightarrow> fs_entry"
  w_remove :: "string \<Rightarrow> string option"
  w_stream :: "string \<Rightarrow> string \<Rightarrow> download_run"
  w_effects :: "effect list"
  w_stdout :: "printed list"

text \<open>
  \<^verbatim>\<open>fmt.Sprintf("%x", b)\<close> on a byte slice: two lowercase hexadecimal digits for each byte,
  the high half first.
\<close>

definition hex_digit :: "nat \<Rightarrow> char" where
  "hex_digit d = ''0123456789abcdef'' ! d"

definition hex_byte :: "byte \<Rightarrow> string" where
  "hex_byte b = [hex_digit (unat b div 16), hex_digit (unat b mod 16)]"

definition hex_string :: "byte list \<Rightarrow> string" where
  "hex_string bs = concat (map hex_byte bs)"

text \<open>
  \<^verbatim>\<open>artifact.Application\<close> as the guard of \<^verbatim>\<open>Download\<close> reaches it: \<open>None\<close> when
  \<^verbatim>\<open>artifact\<close> or \<^verbatim>\<open>artifact.Application\<close> is nil.
\<close>

definition application :: "Artifact option \<Rightarrow> Application option" where
  "application artifact = (case artifact of None \<Rightarrow> None | Some a \<Rightarrow> art_Application a)"

text \<open>
  The block of \<^verbatim>\<open>Download\<close> from \<^verbatim>\<open>_, err := os.Stat(dst)\<close> to the end of its
  \<^verbatim>\<open>if\<close>: the error it returns, or \<open>None\<close> when the function goes on, and the world
  after it.
\<close>

definition Download_stat :: "world \<Rightarrow> string \<Rightarrow> bool \<Rightarrow> string option \<times> world" where
  "Download_stat w dst replace =
     (let w1 = w\<lparr> w_effects := w_effects w @ [Stat dst] \<rparr>
      in case w_fs w dst of
           Exists node \<Rightarrow>
             if \<not> replace
             then (Some (dst @ '': already exists and -replace not specified''), w1)
             else
               (let w2 = w1\<lparr> w_effects := w_effects w1 @ [Remove dst] \<rparr>
                in case w_remove w dst of
                     Some err \<Rightarrow> (Some (''remove '' @ dst @ '': '' @ err), w2)
                   | None \<Rightarrow> (None, w2\<lparr> w_fs := (w_fs w2)(dst := NotExist) \<rparr>))
         | NotExist \<Rightarrow> (None, w1)
         | StatError err \<Rightarrow> (Some (''stat '' @ dst @ '': '' @ err), w1))"

text \<open>
  The rest of \<^verbatim>\<open>Download\<close>, from \<^verbatim>\<open>msg := fmt.Sprintf("%s to %s", src, dst)\<close> on. The
  slices of the run go through a new \<^verbatim>\<open>StatusWriter\<close>; an error of \<^verbatim>\<open>DownloadStream\<close> is
  returned as it is. Otherwise the hash is the hex text of \<^verbatim>\<open>sw.sha256.Sum(nil)\<close>, the
  final line is printed (whatever \<^verbatim>\<open>quiet\<close> is), and the hash is compared with
  \<^verbatim>\<open>String(artifact.Application.Sha256)\<close> unless that is empty. \<open>H\<close> is SHA-256 on a
  byte string; \<^verbatim>\<open>String\<close>, which is not among the sources, is a parameter as in
  \<^verbatim>\<open>FindBuildIndex\<close>.
\<close>

definition Download_stream ::
  "(byte list \<Rightarrow> byte list) \<Rightarrow> (string option \<Rightarrow> string) \<Rightarrow> world \<Rightarrow> string \<Rightarrow> string
     \<Rightarrow> Application \<Rightarrow> bool \<Rightarrow> string option \<times> world" where
  "Download_stream H String w src dst app quiet =
     (let msg = src @ '' to '' @ dst;
          run = w_stream w src dst;
          copied = write_all (NewStatusWriter msg quiet) (dl_chunks run);
          sw = fst copied;
          w1 = w\<lparr> w_fs := (w_fs w)(dst := dl_file run),
                  w_effects := w_effects w @ [DownloadStream src dst],
                  w_stdout := w_stdout w @ map Progress (snd copied) \<rparr>
      in case dl_err run of
           Some err \<Rightarrow> (Some err, w1)
         | None \<Rightarrow>
             (let hash = hex_string (hash_Sum H (sw_sha256 sw));
                  w2 = w1\<lparr> w_stdout := w_stdout w1 @ [Summary src dst (sw_total sw) hash] \<rparr>;
                  expected = String (app_Sha256 app)
              in if expected = '''' then (None, w2)
                 else if hash \<noteq> expected
                 then (Some (dst @ '': sha256 mismatch '' @ hash @ '' expected '' @ expected), w2)
                 else (None, w2)))"

text \<open>
  \<^verbatim>\<open>Download\<close>. The parameter \<open>serverURL\<close> is the text \<^verbatim>\<open>serverURL.String()\<close>. The guard
  tests the three pointers for nil and nothing else.
\<close>

definition Download ::
  "(byte list \<Rightarrow> byte list) \<Rightarrow> (string option \<Rightarrow> string) \<Rightarrow> world \<Rightarrow> string \<Rightarrow> string
     \<Rightarrow> string \<Rightarrow> string \<Rightarrow> Artifact option \<Rightarrow> string \<Rightarrow> bool \<Rightarrow> bool
     \<Rightarrow> string option \<times> world" where
  "Download H String w serverURL project version build artifact dstdir replace quiet =
     (case application artifact of
        None \<Rightarrow> (Some ''bad artifact'', w)
      | Some app \<Rightarrow>
          (case app_Name app of
             None \<Rightarrow> (Some ''bad artifact'', w)
           | Some n \<Rightarrow>
               (let src = serverURL @ ''/v2/projects/'' @ project @ ''/versions/'' @ version
                          @ ''/builds/'' @ build @ ''/downloads/'' @ String (app_Name app);
                    dst = dstdir @ ''/'' @ String (app_Name app)
                in case Download_stat w dst replace of
                     (Some err, w1) \<Rightarrow> (Some err, w1)
                   | (None, w1) \<Rightarrow> Download_stream H String w1 src dst app quiet)))"

text \<open>
  Example values: an artifact descriptor with a given name and checksum; a disk on which
  nothing exists; a run of \<^verbatim>\<open>DownloadStream\<close> that hands over given slices, leaves them
  in the destination file and returns no error; and a world with a given disk, in which
  every \<^verbatim>\<open>os.Remove\<close> succeeds, every download is the given run, and nothing has
  happened yet.
\<close>

definition example_artifact :: "string \<Rightarrow> string \<Rightarrow> Artifact option" where
  "example_artifact name checksum =
     Some \<lparr> art_Application = Some \<lparr> app_Name = Some name, app_Sha256 = Some checksum \<rparr> \<rparr>"

definition empty_disk :: "string \<Rightarrow> fs_entry" where
  "empty_disk path = NotExist"

definition example_run :: "byte list list \<Rightarrow> download_run" where
  "example_run chunks =
     \<lparr> dl_chunks = chunks, dl_file = Exists (File (concat chunks)), dl_err = None \<rparr>"

definition example_world :: "(string \<Rightarrow> fs_entry) \<Rightarrow> download_run \<Rightarrow> world" where
  "example_world disk run =
     \<lparr> w_fs = disk, w_remove = (\<lambda>path. None), w_stream = (\<lambda>src dst. run),
       w_effects = [], w_stdout = [] \<rparr>"

section \<open>Properties of the instrumentation\<close>

subsection \<open>Signed 64-bit arithmetic\<close>

lemma sint_add_nat:
  fixes t :: int64
  assumes "0 \<le> sint t" and "sint t + int n < 2 ^ 63"
  shows "sint (t + of_nat n) = sint t + int n"
proof -
  have "t + of_nat n = word_of_int (sint t + int n)"
    by simp
  then have "sint (t + of_nat n) = signed_take_bit 63 (sint t + int n)"
    by (simp only: sint_sbintrunc') simp
  also have "\<dots> = sint t + int n"
    using assms by (intro signed_take_bit_int_eq_self) auto
  finally show ?thesis .
qed

lemma sint_of_nat_wrap:
  "sint (of_nat n :: int64) = (int n + 2 ^ 63) mod 2 ^ 64 - 2 ^ 63"
proof -
  have "(of_nat n :: int64) = word_of_int (int n)" by simp
  then show ?thesis by (simp only: int_word_sint) simp
qed

lemma sint_diff_in_range:
  fixes a b :: int64
  assumes "0 \<le> sint b" and "sint b \<le> sint a"
  shows "sint (a - b) = sint a - sint b"
proof -
  have "sint a < 2 ^ 63" using sint_lt [of a] by simp
  then show ?thesis using assms
    by (simp add: sint_word_diff signed_take_bit_int_eq_self)
qed

subsection \<open>One call, and a whole stream\<close>

lemma Write_total: "sw_total (wr_sw (Write sw data)) = sw_total sw + of_nat (length data)"
  by (simp add: Write_def Let_def)

lemma Write_sha256: "sw_sha256 (wr_sw (Write sw data)) = hash_Write (sw_sha256 sw) data"
  by (simp add: Write_def Let_def)

lemma Write_quiet: "sw_quiet (wr_sw (Write sw data)) = sw_quiet sw"
  by (simp add: Write_def Let_def)

lemma Write_quiet_silent: "sw_quiet sw \<Longrightarrow> wr_out (Write sw data) = []"
  by (simp add: Write_def Let_def)

lemma write_all_total:
  "sw_total (fst (write_all sw cs)) = sw_total sw + of_nat (sum_list (map length cs))"
  by (induction cs arbitrary: sw) (simp_all add: Let_def Write_total)

lemma write_all_sha256:
  "sw_sha256 (fst (write_all sw cs)) = Hash (writes (sw_sha256 sw) @ cs)"
  by (induction cs arbitrary: sw) (simp_all add: Let_def Write_sha256 hash_Write_def)

lemma write_all_quiet_silent: "sw_quiet sw \<Longrightarrow> snd (write_all sw cs) = []"
  by (induction cs arbitrary: sw) (simp_all add: Let_def Write_quiet Write_quiet_silent)

lemma counter_readings_sorted:
  "0 \<le> sint (sw_total sw) \<Longrightarrow> sint (sw_total sw) + int (sum_list (map length cs)) < 2 ^ 63
   \<Longrightarrow> sorted (counter_readings sw cs)"
proof (induction cs arbitrary: sw)
  case Nil
  then show ?case by simp
next
  case (Cons c cs)
  let ?sw1 = "wr_sw (Write sw c)"
  have step: "sint (sw_total ?sw1) = sint (sw_total sw) + int (length c)"
    using Cons.prems by (simp add: Write_total sint_add_nat)
  then have "sorted (counter_readings ?sw1 cs)"
    using Cons.prems by (intro Cons.IH) auto
  moreover have "\<forall>r \<in> set (counter_readings ?sw1 cs). sint (sw_total ?sw1) \<le> r"
    using \<open>sorted (counter_readings ?sw1 cs)\<close> by (cases cs) auto
  ultimately show ?case using step by auto
qed

lemma counter_readings_nonempty: "counter_readings sw cs \<noteq> []"
  by (cases cs) simp_all

lemma counter_readings_hd: "hd (counter_readings sw cs) = sint (sw_total sw)"
  by (cases cs) simp_all

lemma counter_readings_last:
  "last (counter_readings sw cs) = sint (sw_total (fst (write_all sw cs)))"
  by (induction cs arbitrary: sw) (simp_all add: Let_def counter_readings_nonempty)

lemma counter_readings_decrease:
  assumes "sint (sw_total (fst (write_all sw cs))) < sint (sw_total sw)"
  shows "\<not> sorted (counter_readings sw cs)"
proof
  assume s: "sorted (counter_readings sw cs)"
  obtain r rs where split: "counter_readings sw cs = r # rs"
    using counter_readings_nonempty by (cases "counter_readings sw cs") auto
  have "last (r # rs) = r \<or> last (r # rs) \<in> set rs"
    by (cases rs) auto
  then have "hd (counter_readings sw cs) \<le> last (counter_readings sw cs)"
    using s unfolding split by auto
  then show False using assms by (simp add: counter_readings_hd counter_readings_last)
qed

subsection \<open>The claims about the writer\<close>

text \<open>
  Claim C9. Every call of \<^verbatim>\<open>StatusWriter.Write\<close> returns the length of its input slice
  and a nil error, whatever the state of the writer: it never reports a short write and
  never fails.
\<close>

theorem Write_returns_length_nil:
  "wr_n (Write sw data) = int (length data) \<and> wr_err (Write sw data) = None"
  by (simp add: Write_def Let_def)

text \<open>
  Claim C3, as amended. For every sequence of chunks written through a new
  \<^verbatim>\<open>StatusWriter\<close>, exactly those chunks, in the same order, each whole and once, are fed
  to the digest accumulator, and the counter \<^verbatim>\<open>total\<close> equals the sum of their lengths
  modulo \<open>2 ^ 64\<close>. When that sum is below \<open>2 ^ 63\<close>, the range of \<^verbatim>\<open>int64\<close>, the counter
  equals the sum itself and never decreases from one call to the next.
\<close>

theorem write_all_accounting:
  "writes (sw_sha256 (fst (write_all (NewStatusWriter name quiet) chunks))) = chunks
   \<and> sw_total (fst (write_all (NewStatusWriter name quiet) chunks))
       = of_nat (sum_list (map length chunks))
   \<and> (sum_list (map length chunks) < 2 ^ 63 \<longrightarrow>
        sint (sw_total (fst (write_all (NewStatusWriter name quiet) chunks)))
          = int (sum_list (map length chunks))
        \<and> sorted (counter_readings (NewStatusWriter name quiet) chunks))"
proof -
  let ?sw = "NewStatusWriter name quiet"
  have fresh: "sw_total ?sw = 0" "writes (sw_sha256 ?sw) = []"
    by (simp_all add: NewStatusWriter_def sha256_New_def)
  have fed: "writes (sw_sha256 (fst (write_all ?sw chunks))) = chunks"
    by (simp add: write_all_sha256 fresh)
  have counted: "sw_total (fst (write_all ?sw chunks)) = of_nat (sum_list (map length chunks))"
    by (simp add: write_all_total fresh)
  have bounded: "sint (sw_total (fst (write_all ?sw chunks))) = int (sum_list (map length chunks))
      \<and> sorted (counter_readings ?sw chunks)"
    if small: "sum_list (map length chunks) < 2 ^ 63"
  proof
    have "int (sum_list (map length chunks)) < 2 ^ 63"
      using small by (metis of_nat_less_iff of_nat_numeral of_nat_power)
    then have range: "sint (sw_total ?sw) + int (sum_list (map length chunks)) < 2 ^ 63"
      by (simp add: fresh)
    have "sint (sw_total ?sw + of_nat (sum_list (map length chunks)))
        = sint (sw_total ?sw) + int (sum_list (map length chunks))"
      using range by (intro sint_add_nat) (simp add: fresh)
    then show "sint (sw_total (fst (write_all ?sw chunks))) = int (sum_list (map length chunks))"
      by (simp add: write_all_total fresh)
    show "sorted (counter_readings ?sw chunks)"
      using range by (intro counter_readings_sorted) (simp add: fresh)
  qed
  from fed counted bounded show ?thesis by blast
qed

text \<open>The theorem at two chunks of three and two bytes.\<close>

theorem write_all_accounting_witness:
  "sum_list (map length [[1, 2, 3], [4, 5 :: byte]]) < 2 ^ 63
   \<and> writes (sw_sha256 (fst (write_all (NewStatusWriter ''paper.jar'' False) [[1, 2, 3], [4, 5]])))
       = [[1, 2, 3], [4, 5]]
   \<and> sint (sw_total (fst (write_all (NewStatusWriter ''paper.jar'' False) [[1, 2, 3], [4, 5]]))) = 5
   \<and> sorted (counter_readings (NewStatusWriter ''paper.jar'' False) [[1, 2, 3], [4, 5]])"
  using write_all_accounting [of "''paper.jar''" False "[[1, 2, 3], [4, 5]]"] by simp

text \<open>
  The claim as stated, for every sequence, fails once \<open>2 ^ 63\<close> bytes have gone through:
  after \<open>2 ^ 33\<close> chunks of \<open>2 ^ 30\<close> bytes each the \<^verbatim>\<open>int64\<close> counter has wrapped around
  to \<open>- 2 ^ 63\<close>, which is neither the sum of the lengths nor above the readings before it.
\<close>

theorem write_all_counter_wraps:
  "int (sum_list (map length (replicate (2 ^ 33) (replicate (2 ^ 30) (0 :: byte))))) = 2 ^ 63
   \<and> sint (sw_total (fst (write_all (NewStatusWriter ''paper.jar'' False)
                                     (replicate (2 ^ 33) (replicate (2 ^ 30) 0))))) = - (2 ^ 63)
   \<and> \<not> sorted (counter_readings (NewStatusWriter ''paper.jar'' False)
                                  (replicate (2 ^ 33) (replicate (2 ^ 30) 0)))"
proof -
  let ?sw = "NewStatusWriter ''paper.jar'' False"
  let ?cs = "replicate (2 ^ 33) (replicate (2 ^ 30) (0 :: byte))"
  have len: "sum_list (map length ?cs) = 2 ^ 33 * 2 ^ 30"
    by (simp add: sum_list_replicate)
  have fresh: "sw_total ?sw = 0"
    by (simp add: NewStatusWriter_def)
  have final: "sint (sw_total (fst (write_all ?sw ?cs))) = - (2 ^ 63)"
    unfolding write_all_total len fresh by (simp add: sint_of_nat_wrap)
  have "sint (sw_total (fst (write_all ?sw ?cs))) < sint (sw_total ?sw)"
    unfolding final fresh by simp
  then have "\<not> sorted (counter_readings ?sw ?cs)"
    by (rule counter_readings_decrease)
  with final len show ?thesis by simp
qed

text \<open>
  Claim C6. In non-quiet mode a call of \<^verbatim>\<open>Write\<close> prints a progress line if and only if
  the counter after adding the chunk, minus the marker \<^verbatim>\<open>last\<close> of the previous line, has
  reached 256,000 (the \<^verbatim>\<open>int64\<close> subtraction and signed comparison of the code); the line
  reports the new counter, and the marker then becomes the new counter and otherwise
  stays. While the counter is within the range of \<^verbatim>\<open>int64\<close> that difference is the
  counter after the chunk minus the marker as integers; and in any case it is the
  difference before the call plus the length of the chunk, the bytes since the last line.
\<close>

theorem Write_progress_threshold:
  assumes "\<not> sw_quiet sw"
  shows "(wr_out (Write sw data) \<noteq> []
           \<longleftrightarrow> 256000 \<le> sint (sw_total sw + of_nat (length data) - sw_last sw))
       \<and> wr_out (Write sw data)
           = (if 256000 \<le> sint (sw_total sw + of_nat (length data) - sw_last sw)
              then [ProgressLine (sw_name sw) (sw_total sw + of_nat (length data))] else [])
       \<and> sw_last (wr_sw (Write sw data))
           = (if 256000 \<le> sint (sw_total sw + of_nat (length data) - sw_last sw)
              then sw_total (wr_sw (Write sw data)) else sw_last sw)
       \<and> (0 \<le> sint (sw_last sw) \<and> sint (sw_last sw) \<le> sint (sw_total sw)
            \<and> sint (sw_total sw) + int (length data) < 2 ^ 63 \<longrightarrow>
          sint (sw_total sw + of_nat (length data) - sw_last sw)
            = sint (sw_total sw) + int (length data) - sint (sw_last sw))
       \<and> (0 \<le> sint (sw_total sw - sw_last sw)
            \<and> sint (sw_total sw - sw_last sw) + int (length data) < 2 ^ 63 \<longrightarrow>
          sint (sw_total sw + of_nat (length data) - sw_last sw)
            = sint (sw_total sw - sw_last sw) + int (length data))"
proof -
  have code: "wr_out (Write sw data) \<noteq> []
        \<longleftrightarrow> 256000 \<le> sint (sw_total sw + of_nat (length data) - sw_last sw)"
    and line: "wr_out (Write sw data)
           = (if 256000 \<le> sint (sw_total sw + of_nat (length data) - sw_last sw)
              then [ProgressLine (sw_name sw) (sw_total sw + of_nat (length data))] else [])"
    and marker: "sw_last (wr_sw (Write sw data))
           = (if 256000 \<le> sint (sw_total sw + of_nat (length data) - sw_last sw)
              then sw_total (wr_sw (Write sw data)) else sw_last sw)"
    using assms by (simp_all add: Write_def Let_def)
  have bytes: "sint (sw_total sw + of_nat (length data) - sw_last sw)
            = sint (sw_total sw) + int (length data) - sint (sw_last sw)"
    if "0 \<le> sint (sw_last sw) \<and> sint (sw_last sw) \<le> sint (sw_total sw)
            \<and> sint (sw_total sw) + int (length data) < 2 ^ 63"
  proof -
    have "sint (sw_total sw + of_nat (length data)) = sint (sw_total sw) + int (length data)"
      using that by (intro sint_add_nat) auto
    moreover have "sint (sw_total sw + of_nat (length data) - sw_last sw)
        = sint (sw_total sw + of_nat (length data)) - sint (sw_last sw)"
      using that calculation by (intro sint_diff_in_range) auto
    ultimately show ?thesis by simp
  qed
  have since: "sint (sw_total sw + of_nat (length data) - sw_last sw)
            = sint (sw_total sw - sw_last sw) + int (length data)"
    if "0 \<le> sint (sw_total sw - sw_last sw)
            \<and> sint (sw_total sw - sw_last sw) + int (length data) < 2 ^ 63"
  proof -
    have "sw_total sw + of_nat (length data) - sw_last sw
        = (sw_total sw - sw_last sw) + of_nat (length data)"
      by simp
    also have "sint \<dots> = sint (sw_total sw - sw_last sw) + int (length data)"
      using that by (intro sint_add_nat) auto
    finally show ?thesis .
  qed
  from code line marker bytes since show ?thesis by blast
qed

text \<open>The theorem at a first chunk of 256,000 bytes (a line) and one of 255,999 (none).\<close>

theorem Write_progress_threshold_witness:
  "\<not> sw_quiet (NewStatusWriter ''paper.jar'' False)
   \<and> wr_out (Write (NewStatusWriter ''paper.jar'' False) (replicate 256000 0))
       = [ProgressLine ''paper.jar'' 256000]
   \<and> sw_last (wr_sw (Write (NewStatusWriter ''paper.jar'' False) (replicate 256000 0))) = 256000
   \<and> wr_out (Write (NewStatusWriter ''paper.jar'' False) (replicate 255999 0)) = []
   \<and> sw_last (wr_sw (Write (NewStatusWriter ''paper.jar'' False) (replicate 255999 0))) = 0
   \<and> sint (sw_total (NewStatusWriter ''paper.jar'' False)
             + of_nat (length (replicate 255999 (0 :: byte)))
             - sw_last (NewStatusWriter ''paper.jar'' False)) = 255999"
  using Write_progress_threshold [of "NewStatusWriter ''paper.jar'' False" "replicate 256000 0"]
    Write_progress_threshold [of "NewStatusWriter ''paper.jar'' False" "replicate 255999 0"]
  by (simp add: NewStatusWriter_def Write_total)

text \<open>
  Claim C7. Two runs of the writer over the same chunks that differ in the flag \<^verbatim>\<open>quiet\<close>
  only end with the same counter and the same digest state, hence the same digest; the
  quiet run prints nothing. This holds from any state of the writer, and in particular
  for two new writers.
\<close>

theorem quiet_only_silences:
  "sw_total (fst (write_all (sw\<lparr> sw_quiet := True \<rparr>) chunks))
     = sw_total (fst (write_all (sw\<lparr> sw_quiet := False \<rparr>) chunks))
   \<and> sw_sha256 (fst (write_all (sw\<lparr> sw_quiet := True \<rparr>) chunks))
     = sw_sha256 (fst (write_all (sw\<lparr> sw_quiet := False \<rparr>) chunks))
   \<and> hash_Sum H (sw_sha256 (fst (write_all (sw\<lparr> sw_quiet := True \<rparr>) chunks)))
     = hash_Sum H (sw_sha256 (fst (write_all (sw\<lparr> sw_quiet := False \<rparr>) chunks)))
   \<and> snd (write_all (sw\<lparr> sw_quiet := True \<rparr>) chunks) = []
   \<and> sw_total (fst (write_all (NewStatusWriter name True) chunks))
     = sw_total (fst (write_all (NewStatusWriter name False) chunks))
   \<and> sw_sha256 (fst (write_all (NewStatusWriter name True) chunks))
     = sw_sha256 (fst (write_all (NewStatusWriter name False) chunks))"
proof -
  have counter: "sw_total (fst (write_all s chunks))
      = sw_total s + of_nat (sum_list (map length chunks))" for s
    by (rule write_all_total)
  have digest: "sw_sha256 (fst (write_all s chunks)) = Hash (writes (sw_sha256 s) @ chunks)" for s
    by (rule write_all_sha256)
  have silent: "snd (write_all (sw\<lparr> sw_quiet := True \<rparr>) chunks) = []"
    by (simp add: write_all_quiet_silent)
  have new: "sw_total (NewStatusWriter name q) = 0"
    "sw_sha256 (NewStatusWriter name q) = sha256_New" for q
    by (simp_all add: NewStatusWriter_def)
  show ?thesis
    unfolding counter digest silent new by simp
qed

section \<open>Properties of the build lookup\<close>

subsection \<open>The search loop\<close>

lemma find_from_returns:
  "None \<notin> set bs \<Longrightarrow> \<exists>r. find_from String build i bs = Inr r"
  by (induction String build i bs rule: find_from.induct) auto

lemma find_from_range:
  "find_from String build i bs = Inr r \<Longrightarrow> r = - 1 \<or> (i \<le> r \<and> r < i + int (length bs))"
  by (induction String build i bs arbitrary: r rule: find_from.induct)
     (auto split: if_splits)

lemma find_from_hit:
  "find_from String build i bs = Inr r \<Longrightarrow> 0 \<le> i \<Longrightarrow> r \<noteq> - 1 \<Longrightarrow>
     (\<exists>b. bs ! nat (r - i) = Some b \<and> String (b_Build b) = build)
     \<and> (\<forall>j < nat (r - i). \<forall>b. bs ! j = Some b \<longrightarrow> String (b_Build b) \<noteq> build)"
proof (induction String build i bs arbitrary: r rule: find_from.induct)
  case (1 String build i)
  then show ?case by simp
next
  case (2 String build i bs)
  then show ?case by simp
next
  case (3 String build i b bs)
  show ?case
  proof (cases "String (b_Build b) = build")
    case True
    with 3 show ?thesis by simp
  next
    case False
    with "3.prems" have rest: "find_from String build (i + 1) bs = Inr r" by simp
    from find_from_range [OF rest] "3.prems" have above: "i + 1 \<le> r" by auto
    from "3.IH" [OF False rest] "3.prems"
    have hit: "\<exists>b. bs ! nat (r - (i + 1)) = Some b \<and> String (b_Build b) = build"
      and miss: "\<forall>j < nat (r - (i + 1)). \<forall>b. bs ! j = Some b \<longrightarrow> String (b_Build b) \<noteq> build"
      by auto
    have shift: "nat (r - i) = Suc (nat (r - (i + 1)))"
      using above by linarith
    have "\<forall>j < nat (r - i). \<forall>b'. (Some b # bs) ! j = Some b' \<longrightarrow> String (b_Build b') \<noteq> build"
    proof (intro allI impI)
      fix j b'
      assume "j < nat (r - i)" and at: "(Some b # bs) ! j = Some b'"
      then show "String (b_Build b') \<noteq> build"
        using False miss shift by (cases j) auto
    qed
    with hit shift show ?thesis by simp
  qed
qed

lemma find_from_miss:
  "find_from String build i bs = Inr (- 1) \<Longrightarrow> 0 \<le> i \<Longrightarrow>
     \<forall>b. Some b \<in> set bs \<longrightarrow> String (b_Build b) \<noteq> build"
proof (induction String build i bs rule: find_from.induct)
  case (3 String build i b bs)
  then show ?case by (auto split: if_splits)
qed simp_all

lemma find_build_non_nil:
  assumes "None \<notin> set (bs_Builds builds)"
  shows "\<exists>i. FindBuildIndex String builds build = Inr i
     \<and> (bs_Builds builds = [] \<longrightarrow> i = - 1)
     \<and> (bs_Builds builds \<noteq> [] \<and> (build = '''' \<or> build = ''latest'') \<longrightarrow>
          i = int (length (bs_Builds builds)) - 1)
     \<and> (bs_Builds builds \<noteq> [] \<and> build = ''first'' \<longrightarrow> i = 0)
     \<and> (bs_Builds builds \<noteq> [] \<and> build \<noteq> '''' \<and> build \<noteq> ''latest'' \<and> build \<noteq> ''first'' \<longrightarrow>
          (if \<exists>b. Some b \<in> set (bs_Builds builds) \<and> String (b_Build b) = build
           then 0 \<le> i \<and> nat i < length (bs_Builds builds)
              \<and> (\<exists>b. bs_Builds builds ! nat i = Some b \<and> String (b_Build b) = build)
              \<and> (\<forall>j < nat i. \<forall>b. bs_Builds builds ! j = Some b \<longrightarrow> String (b_Build b) \<noteq> build)
           else i = - 1))
     \<and> - 1 \<le> i \<and> i < int (length (bs_Builds builds))
     \<and> FindBuild String builds build
         = (if i = - 1 then Inr None else Inr (bs_Builds builds ! nat i))
     \<and> (FindBuild String builds build = Inr None \<longleftrightarrow> i = - 1)"
proof -
  let ?bs = "bs_Builds builds"
  obtain r where loop: "find_from String build 0 ?bs = Inr r"
    using find_from_returns [OF assms] by blast
  have r_range: "r = - 1 \<or> (0 \<le> r \<and> r < int (length ?bs))"
    using find_from_range [OF loop] by simp
  have r_hit: "(\<exists>b. ?bs ! nat r = Some b \<and> String (b_Build b) = build)
      \<and> (\<forall>j < nat r. \<forall>b. ?bs ! j = Some b \<longrightarrow> String (b_Build b) \<noteq> build)" if "r \<noteq> - 1"
    using find_from_hit [OF loop _ that] by simp
  have r_miss: "\<forall>b. Some b \<in> set ?bs \<longrightarrow> String (b_Build b) \<noteq> build" if "r = - 1"
    using find_from_miss [of String build 0 ?bs] loop that by simp
  have r_found: "r \<noteq> - 1 \<longleftrightarrow> (\<exists>b. Some b \<in> set ?bs \<and> String (b_Build b) = build)"
  proof
    assume "r \<noteq> - 1"
    with r_hit r_range obtain b where "?bs ! nat r = Some b" "String (b_Build b) = build"
      and "nat r < length ?bs" by auto
    then show "\<exists>b. Some b \<in> set ?bs \<and> String (b_Build b) = build"
      by (metis nth_mem)
  next
    assume "\<exists>b. Some b \<in> set ?bs \<and> String (b_Build b) = build"
    with r_miss show "r \<noteq> - 1" by blast
  qed
  define i where "i = (if ?bs = [] then - 1
      else if build = '''' \<or> build = ''latest'' then int (length ?bs) - 1
      else if build = ''first'' then 0 else r)"
  have index: "FindBuildIndex String builds build = Inr i"
    by (simp add: FindBuildIndex_def i_def loop)
  have range: "- 1 \<le> i \<and> i < int (length ?bs)"
    using r_range by (auto simp: i_def)
  have not_nil: "?bs ! nat i \<noteq> None" if "i \<noteq> - 1"
  proof -
    from that range have "nat i < length ?bs" by linarith
    then have "?bs ! nat i \<in> set ?bs" by (rule nth_mem)
    with assms show ?thesis by metis
  qed
  have build: "FindBuild String builds build
      = (if i = - 1 then Inr None else Inr (?bs ! nat i))"
    using range by (auto simp: FindBuild_def index)
  have nil_iff: "FindBuild String builds build = Inr None \<longleftrightarrow> i = - 1"
    using not_nil by (auto simp: build)
  have searched: "if \<exists>b. Some b \<in> set ?bs \<and> String (b_Build b) = build
           then 0 \<le> i \<and> nat i < length ?bs
              \<and> (\<exists>b. ?bs ! nat i = Some b \<and> String (b_Build b) = build)
              \<and> (\<forall>j < nat i. \<forall>b. ?bs ! j = Some b \<longrightarrow> String (b_Build b) \<noteq> build)
           else i = - 1"
    if other: "?bs \<noteq> [] \<and> build \<noteq> '''' \<and> build \<noteq> ''latest'' \<and> build \<noteq> ''first''"
  proof -
    from other have "i = r" by (simp add: i_def)
    show ?thesis
    proof (cases "r = - 1")
      case True
      with r_found \<open>i = r\<close> show ?thesis by simp
    next
      case False
      with r_range have "0 \<le> r" "nat r < length ?bs" by auto
      with False r_found r_hit [OF False] \<open>i = r\<close> show ?thesis by simp
    qed
  qed
  have fixed: "(?bs = [] \<longrightarrow> i = - 1)
     \<and> (?bs \<noteq> [] \<and> (build = '''' \<or> build = ''latest'') \<longrightarrow> i = int (length ?bs) - 1)
     \<and> (?bs \<noteq> [] \<and> build = ''first'' \<longrightarrow> i = 0)"
    by (simp add: i_def)
  from index fixed searched range build nil_iff show ?thesis
    by (intro exI [of _ i]) blast
qed

subsection \<open>The claim about the lookup\<close>

text \<open>
  Claim C10, as amended. For every \<^verbatim>\<open>Builds\<close> value, \<^verbatim>\<open>FindBuildIndex\<close> returns -1 when
  the build list is empty; on a non-empty list it returns the last index for the argument
  \<^verbatim>\<open>""\<close> or \<^verbatim>\<open>"latest"\<close> and index 0 for \<^verbatim>\<open>"first"\<close>. When no element of the list is a nil
  pointer, it returns for any other argument the index of the first build whose build
  number string equals the argument, and -1 when no build matches; the result is -1 or an
  index within the list; and \<^verbatim>\<open>FindBuild\<close> returns nil exactly when \<^verbatim>\<open>FindBuildIndex\<close>
  returns -1 and otherwise the build at the returned index.
\<close>

theorem FindBuildIndex_FindBuild:
  "(bs_Builds builds = [] \<longrightarrow> FindBuildIndex String builds build = Inr (- 1))
   \<and> (bs_Builds builds \<noteq> [] \<and> (build = '''' \<or> build = ''latest'') \<longrightarrow>
        FindBuildIndex String builds build = Inr (int (length (bs_Builds builds)) - 1))
   \<and> (bs_Builds builds \<noteq> [] \<and> build = ''first'' \<longrightarrow>
        FindBuildIndex String builds build = Inr 0)
   \<and> (None \<notin> set (bs_Builds builds) \<longrightarrow>
        (\<exists>i. FindBuildIndex String builds build = Inr i
           \<and> (bs_Builds builds \<noteq> [] \<and> build \<noteq> '''' \<and> build \<noteq> ''latest'' \<and> build \<noteq> ''first'' \<longrightarrow>
                (if \<exists>b. Some b \<in> set (bs_Builds builds) \<and> String (b_Build b) = build
                 then 0 \<le> i \<and> nat i < length (bs_Builds builds)
                    \<and> (\<exists>b. bs_Builds builds ! nat i = Some b \<and> String (b_Build b) = build)
                    \<and> (\<forall>j < nat i. \<forall>b. bs_Builds builds ! j = Some b \<longrightarrow>
                          String (b_Build b) \<noteq> build)
                 else i = - 1))
           \<and> - 1 \<le> i \<and> i < int (length (bs_Builds builds))
           \<and> FindBuild String builds build
               = (if i = - 1 then Inr None else Inr (bs_Builds builds ! nat i))
           \<and> (FindBuild String builds build = Inr None \<longleftrightarrow> i = - 1)))"
proof -
  have fixed: "(bs_Builds builds = [] \<longrightarrow> FindBuildIndex String builds build = Inr (- 1))
   \<and> (bs_Builds builds \<noteq> [] \<and> (build = '''' \<or> build = ''latest'') \<longrightarrow>
        FindBuildIndex String builds build = Inr (int (length (bs_Builds builds)) - 1))
   \<and> (bs_Builds builds \<noteq> [] \<and> build = ''first'' \<longrightarrow>
        FindBuildIndex String builds build = Inr 0)"
    by (simp add: FindBuildIndex_def)
  have searched: "\<exists>i. FindBuildIndex String builds build = Inr i
           \<and> (bs_Builds builds \<noteq> [] \<and> build \<noteq> '''' \<and> build \<noteq> ''latest'' \<and> build \<noteq> ''first'' \<longrightarrow>
                (if \<exists>b. Some b \<in> set (bs_Builds builds) \<and> String (b_Build b) = build
                 then 0 \<le> i \<and> nat i < length (bs_Builds builds)
                    \<and> (\<exists>b. bs_Builds builds ! nat i = Some b \<and> String (b_Build b) = build)
                    \<and> (\<forall>j < nat i. \<forall>b. bs_Builds builds ! j = Some b \<longrightarrow>
                          String (b_Build b) \<noteq> build)
                 else i = - 1))
           \<and> - 1 \<le> i \<and> i < int (length (bs_Builds builds))
           \<and> FindBuild String builds build
               = (if i = - 1 then Inr None else Inr (bs_Builds builds ! nat i))
           \<and> (FindBuild String builds build = Inr None \<longleftrightarrow> i = - 1)"
    if "None \<notin> set (bs_Builds builds)"
    using find_build_non_nil [OF that, of String build] by (elim exE) (rule exI, blast)
  from fixed searched show ?thesis by blast
qed

text \<open>
  The theorem at the empty list, and at the builds 213 and 214 for the arguments
  \<^verbatim>\<open>""\<close>, \<^verbatim>\<open>"latest"\<close>, \<^verbatim>\<open>"first"\<close>, \<^verbatim>\<open>"214"\<close> and \<^verbatim>\<open>"215"\<close>.
\<close>

theorem FindBuildIndex_FindBuild_witness:
  "bs_Builds (example_builds []) = []
   \<and> FindBuildIndex (case_option '''' id) (example_builds []) ''214'' = Inr (- 1)
   \<and> bs_Builds (example_builds [Some (example_build ''213''), Some (example_build ''214'')]) \<noteq> []
   \<and> None \<notin> set (bs_Builds
         (example_builds [Some (example_build ''213''), Some (example_build ''214'')]))
   \<and> FindBuildIndex (case_option '''' id)
         (example_builds [Some (example_build ''213''), Some (example_build ''214'')]) '''' = Inr 1
   \<and> FindBuildIndex (case_option '''' id)
         (example_builds [Some (example_build ''213''), Some (example_build ''214'')]) ''latest''
         = Inr 1
   \<and> FindBuildIndex (case_option '''' id)
         (example_builds [Some (example_build ''213''), Some (example_build ''214'')]) ''first''
         = Inr 0
   \<and> FindBuildIndex (case_option '''' id)
         (example_builds [Some (example_build ''213''), Some (example_build ''214'')]) ''214''
         = Inr 1
   \<and> FindBuild (case_option '''' id)
         (example_builds [Some (example_build ''213''), Some (example_build ''214'')]) ''214''
         = Inr (Some (example_build ''214''))
   \<and> FindBuildIndex (case_option '''' id)
         (example_builds [Some (example_build ''213''), Some (example_build ''214'')]) ''215''
         = Inr (- 1)
   \<and> FindBuild (case_option '''' id)
         (example_builds [Some (example_build ''213''), Some (example_build ''214'')]) ''215''
         = Inr None"
proof -
  let ?B = "example_builds [Some (example_build ''213''), Some (example_build ''214'')]"
  let ?S = "case_option '''' id :: string option \<Rightarrow> string"
  have sel: "bs_Builds (example_builds bs) = bs" for bs
    by (simp add: example_builds_def)
  have num: "?S (b_Build (example_build n)) = n" for n
    by (simp add: example_build_def)
  have non_nil: "None \<notin> set (bs_Builds ?B)"
    by (simp add: sel)
  have empty: "FindBuildIndex ?S (example_builds []) ''214'' = Inr (- 1)"
    using FindBuildIndex_FindBuild [of "example_builds []" ?S "''214''"] by (simp add: sel)
  have fixed: "FindBuildIndex ?S ?B '''' = Inr 1" "FindBuildIndex ?S ?B ''latest'' = Inr 1"
    "FindBuildIndex ?S ?B ''first'' = Inr 0"
    using FindBuildIndex_FindBuild [of ?B ?S "''''"]
      FindBuildIndex_FindBuild [of ?B ?S "''latest''"]
      FindBuildIndex_FindBuild [of ?B ?S "''first''"]
    by (simp_all add: sel)
  have found: "FindBuildIndex ?S ?B ''214'' = Inr 1"
    by (simp add: FindBuildIndex_def sel num)
  have missing: "FindBuildIndex ?S ?B ''215'' = Inr (- 1)"
    by (simp add: FindBuildIndex_def sel num)
  have build: "FindBuild ?S ?B ''214'' = Inr (Some (example_build ''214''))"
    using FindBuildIndex_FindBuild [of ?B ?S "''214''"] non_nil by (auto simp: found sel)
  have nil: "FindBuild ?S ?B ''215'' = Inr None"
    using FindBuildIndex_FindBuild [of ?B ?S "''215''"] non_nil by (auto simp: missing)
  from sel non_nil empty fixed found missing build nil show ?thesis by simp
qed

text \<open>
  The claim as stated, for every \<^verbatim>\<open>Builds\<close> value, fails on a list that holds a nil
  pointer: for \<^verbatim>\<open>"latest"\<close> the index is 0 and yet \<^verbatim>\<open>FindBuild\<close> returns nil, and for
  \<^verbatim>\<open>"214"\<close> the loop dereferences the nil element and panics instead of returning -1.
\<close>

theorem FindBuild_nil_element:
  "FindBuildIndex (case_option '''' id) (example_builds [None]) ''latest'' = Inr 0
   \<and> FindBuild (case_option '''' id) (example_builds [None]) ''latest'' = Inr None
   \<and> FindBuildIndex (case_option '''' id) (example_builds [None]) ''214''
       = Inl NilPointerDereference"
  by (simp add: example_builds_def FindBuildIndex_def FindBuild_def)

section \<open>Properties of the download\<close>

subsection \<open>The parts of the function\<close>

lemma Download_stat_passes:
  "fst (Download_stat w dst replace) = None
     \<longleftrightarrow> w_fs w dst = NotExist
         \<or> (\<exists>node. w_fs w dst = Exists node \<and> replace \<and> w_remove w dst = None)"
  by (auto simp: Download_stat_def Let_def split: fs_entry.split option.split)

lemma Download_stat_stream: "w_stream (snd (Download_stat w dst replace)) = w_stream w"
  by (simp add: Download_stat_def Let_def split: fs_entry.split option.split)

lemma Download_stat_effects:
  "\<exists>es. w_effects (snd (Download_stat w dst replace)) = w_effects w @ es
        \<and> (\<forall>u p. DownloadStream u p \<notin> set es)"
  by (simp add: Download_stat_def Let_def split: fs_entry.split option.split)

lemma Download_stream_effects:
  "w_effects (snd (Download_stream H String w src dst app quiet))
     = w_effects w @ [DownloadStream src dst]"
  by (simp add: Download_stream_def Let_def split: option.split)

lemma fresh_digest:
  "hash_Sum H (sw_sha256 (fst (write_all (NewStatusWriter name quiet) chunks))) = H (concat chunks)"
  by (simp add: write_all_sha256 hash_Sum_def NewStatusWriter_def sha256_New_def)

lemma Download_stream_completed:
  assumes "dl_err (w_stream w src dst) = None"
  shows "fst (Download_stream H String w src dst app quiet)
       = (if String (app_Sha256 app) = ''''
             \<or> hex_string (H (concat (dl_chunks (w_stream w src dst)))) = String (app_Sha256 app)
          then None
          else Some (dst @ '': sha256 mismatch ''
                 @ hex_string (H (concat (dl_chunks (w_stream w src dst))))
                 @ '' expected '' @ String (app_Sha256 app)))"
    and "w_fs (snd (Download_stream H String w src dst app quiet)) dst
       = dl_file (w_stream w src dst)"
    and "\<exists>total. last (w_stdout (snd (Download_stream H String w src dst app quiet)))
       = Summary src dst total (hex_string (H (concat (dl_chunks (w_stream w src dst)))))"
  using assms by (simp_all add: Download_stream_def Let_def fresh_digest)

lemma Download_guarded:
  assumes "application artifact = Some app" and "app_Name app = Some n"
  shows "Download H String w serverURL project version build artifact dstdir replace quiet
       = (case fst (Download_stat w (dstdir @ ''/'' @ String (Some n)) replace) of
            Some err \<Rightarrow> (Some err, snd (Download_stat w (dstdir @ ''/'' @ String (Some n)) replace))
          | None \<Rightarrow>
              Download_stream H String
                (snd (Download_stat w (dstdir @ ''/'' @ String (Some n)) replace))
                (serverURL @ ''/v2/projects/'' @ project @ ''/versions/'' @ version
                   @ ''/builds/'' @ build @ ''/downloads/'' @ String (Some n))
                (dstdir @ ''/'' @ String (Some n)) app quiet)"
  using assms by (simp add: Download_def Let_def split: prod.split option.split)

lemma Download_completed:
  assumes "application artifact = Some app" and "app_Name app = Some n"
    and "fst (Download_stat w (dstdir @ ''/'' @ String (Some n)) replace) = None"
    and "w_stream w
           (serverURL @ ''/v2/projects/'' @ project @ ''/versions/'' @ version
              @ ''/builds/'' @ build @ ''/downloads/'' @ String (Some n))
           (dstdir @ ''/'' @ String (Some n)) = run"
    and "dl_err run = None"
  shows "fst (Download H String w serverURL project version build artifact dstdir replace quiet)
       = (if String (app_Sha256 app) = ''''
             \<or> hex_string (H (concat (dl_chunks run))) = String (app_Sha256 app)
          then None
          else Some ((dstdir @ ''/'' @ String (Some n)) @ '': sha256 mismatch ''
                 @ hex_string (H (concat (dl_chunks run)))
                 @ '' expected '' @ String (app_Sha256 app)))"
    and "\<exists>total. last (w_stdout (snd
           (Download H String w serverURL project version build artifact dstdir replace quiet)))
       = Summary (serverURL @ ''/v2/projects/'' @ project @ ''/versions/'' @ version
              @ ''/builds/'' @ build @ ''/downloads/'' @ String (Some n))
           (dstdir @ ''/'' @ String (Some n)) total (hex_string (H (concat (dl_chunks run))))"
    and "last (w_effects (snd
           (Download H String w serverURL project version build artifact dstdir replace quiet)))
       = DownloadStream
           (serverURL @ ''/v2/projects/'' @ project @ ''/versions/'' @ version
              @ ''/builds/'' @ build @ ''/downloads/'' @ String (Some n))
           (dstdir @ ''/'' @ String (Some n))"
proof -
  let ?dst = "dstdir @ ''/'' @ String (Some n)"
  let ?src = "serverURL @ ''/v2/projects/'' @ project @ ''/versions/'' @ version
              @ ''/builds/'' @ build @ ''/downloads/'' @ String (Some n)"
  let ?w1 = "snd (Download_stat w ?dst replace)"
  have run: "Download H String w serverURL project version build artifact dstdir replace quiet
      = Download_stream H String ?w1 ?src ?dst app quiet"
    using assms(3) by (simp add: Download_guarded [OF assms(1) assms(2)])
  have same: "w_stream ?w1 ?src ?dst = run"
    using assms(4) by (simp add: Download_stat_stream)
  have ok: "dl_err (w_stream ?w1 ?src ?dst) = None"
    unfolding same by (rule assms(5))
  show "fst (Download H String w serverURL project version build artifact dstdir replace quiet)
       = (if String (app_Sha256 app) = ''''
             \<or> hex_string (H (concat (dl_chunks run))) = String (app_Sha256 app)
          then None
          else Some (?dst @ '': sha256 mismatch ''
                 @ hex_string (H (concat (dl_chunks run)))
                 @ '' expected '' @ String (app_Sha256 app)))"
    unfolding run
    using Download_stream_completed(1) [OF ok, where H = H and String = String and app = app
        and quiet = quiet]
    unfolding same .
  show "\<exists>total. last (w_stdout (snd
           (Download H String w serverURL project version build artifact dstdir replace quiet)))
       = Summary ?src ?dst total (hex_string (H (concat (dl_chunks run))))"
    unfolding run
    using Download_stream_completed(3) [OF ok, where H = H and String = String and app = app
        and quiet = quiet]
    unfolding same .
  show "last (w_effects (snd
           (Download H String w serverURL project version build artifact dstdir replace quiet)))
       = DownloadStream ?src ?dst"
    unfolding run Download_stream_effects by simp
qed

subsection \<open>Lowercase hex\<close>

lemma hex_digit_lowercase: "d < 16 \<Longrightarrow> hex_digit d \<in> set ''0123456789abcdef''"
  unfolding hex_digit_def by (rule nth_mem) simp

lemma hex_byte_lowercase: "set (hex_byte b) \<subseteq> set ''0123456789abcdef''"
proof -
  have "unat b < 256" using unsigned_less [of b] by simp
  then have hi: "unat b div 16 < 16" and lo: "unat b mod 16 < 16" by simp_all
  have "hex_digit (unat b div 16) \<in> set ''0123456789abcdef''"
    using hi by (rule hex_digit_lowercase)
  moreover have "hex_digit (unat b mod 16) \<in> set ''0123456789abcdef''"
    using lo by (rule hex_digit_lowercase)
  ultimately show ?thesis unfolding hex_byte_def by simp
qed

lemma hex_string_lowercase: "set (hex_string bs) \<subseteq> set ''0123456789abcdef''"
  using hex_byte_lowercase by (induction bs) (auto simp: hex_string_def)

subsection \<open>The example values\<close>

lemma example_application:
  "application (example_artifact name c) = Some \<lparr> app_Name = Some name, app_Sha256 = Some c \<rparr>"
  by (simp add: application_def example_artifact_def)

lemma example_world_simps:
  "w_fs (example_world disk run) = disk"
  "w_remove (example_world disk run) path = None"
  "w_stream (example_world disk run) src dst = run"
  "w_effects (example_world disk run) = []"
  "w_stdout (example_world disk run) = []"
  by (simp_all add: example_world_def)

lemma example_run_simps:
  "dl_chunks (example_run chunks) = chunks"
  "dl_file (example_run chunks) = Exists (File (concat chunks))"
  "dl_err (example_run chunks) = None"
  by (simp_all add: example_run_def)

lemma example_stat_absent:
  "fst (Download_stat (example_world empty_disk run) dst replace) = None"
  by (simp add: Download_stat_def example_world_def empty_disk_def)

lemma hex_string_example: "hex_string [1, 2, 3] = ''010203''"
  by (simp add: hex_string_def hex_byte_def hex_digit_def)

subsection \<open>The claims about the download\<close>

text \<open>
  Claim C4, as amended. A call of \<^verbatim>\<open>Download\<close> whose artifact carries no name, that is
  whose \<^verbatim>\<open>artifact\<close>, \<^verbatim>\<open>artifact.Application\<close> or \<^verbatim>\<open>artifact.Application.Name\<close> is nil,
  fails with the error \<^verbatim>\<open>bad artifact\<close> and leaves the world as it was: no stat, no
  delete and no request is made. When the three pointers are not nil, whatever the name
  is, the call goes on to \<^verbatim>\<open>os.Stat\<close> of \<^verbatim>\<open>dstdir/name\<close>.
\<close>

theorem Download_bad_artifact:
  "(artifact = None
      \<or> (\<exists>a. artifact = Some a \<and> art_Application a = None)
      \<or> (\<exists>a app. artifact = Some a \<and> art_Application a = Some app \<and> app_Name app = None)
    \<longrightarrow> Download H String w serverURL project version build artifact dstdir replace quiet
         = (Some ''bad artifact'', w))
   \<and> (\<forall>a app n. artifact = Some a \<and> art_Application a = Some app \<and> app_Name app = Some n
    \<longrightarrow> (\<exists>es. w_effects (snd
            (Download H String w serverURL project version build artifact dstdir replace quiet))
          = w_effects w @ Stat (dstdir @ ''/'' @ String (Some n)) # es))"
proof -
  have nil: "Download H String w serverURL project version build artifact dstdir replace quiet
         = (Some ''bad artifact'', w)"
    if "artifact = None
      \<or> (\<exists>a. artifact = Some a \<and> art_Application a = None)
      \<or> (\<exists>a app. artifact = Some a \<and> art_Application a = Some app \<and> app_Name app = None)"
    using that by (auto simp: Download_def application_def)
  have named: "\<exists>es. w_effects (snd
            (Download H String w serverURL project version build artifact dstdir replace quiet))
          = w_effects w @ Stat (dstdir @ ''/'' @ String (Some n)) # es"
    if "artifact = Some a \<and> art_Application a = Some app \<and> app_Name app = Some n" for a app n
  proof -
    from that have app: "application artifact = Some app" "app_Name app = Some n"
      by (auto simp: application_def)
    let ?dst = "dstdir @ ''/'' @ String (Some n)"
    have stat: "\<exists>es. w_effects (snd (Download_stat w ?dst replace)) = w_effects w @ Stat ?dst # es"
      by (simp add: Download_stat_def Let_def split: fs_entry.split option.split)
    show ?thesis
    proof (cases "fst (Download_stat w ?dst replace)")
      case (Some err)
      with stat show ?thesis
        by (simp add: Download_guarded [OF app])
    next
      case None
      with stat show ?thesis
        by (auto simp: Download_guarded [OF app] Download_stream_effects)
    qed
  qed
  from nil named show ?thesis by blast
qed

text \<open>
  The theorem at a nil artifact, a nil application and a nil name, and at the name
  \<^verbatim>\<open>paper.jar\<close> on an empty disk.
\<close>

theorem Download_bad_artifact_witness:
  "Download id (case_option '''' id) (example_world empty_disk (example_run [[1, 2], [3]]))
        ''https://api.papermc.io'' ''paper'' ''1.20.4'' ''17'' None ''/tmp/out'' False True
      = (Some ''bad artifact'', example_world empty_disk (example_run [[1, 2], [3]]))
   \<and> Download id (case_option '''' id) (example_world empty_disk (example_run [[1, 2], [3]]))
        ''https://api.papermc.io'' ''paper'' ''1.20.4'' ''17''
        (Some \<lparr> art_Application = None \<rparr>) ''/tmp/out'' False True
      = (Some ''bad artifact'', example_world empty_disk (example_run [[1, 2], [3]]))
   \<and> Download id (case_option '''' id) (example_world empty_disk (example_run [[1, 2], [3]]))
        ''https://api.papermc.io'' ''paper'' ''1.20.4'' ''17''
        (Some \<lparr> art_Application = Some \<lparr> app_Name = None, app_Sha256 = Some ''010203'' \<rparr> \<rparr>)
        ''/tmp/out'' False True
      = (Some ''bad artifact'', example_world empty_disk (example_run [[1, 2], [3]]))
   \<and> hd (w_effects (snd
        (Download id (case_option '''' id) (example_world empty_disk (example_run [[1, 2], [3]]))
           ''https://api.papermc.io'' ''paper'' ''1.20.4'' ''17''
           (example_artifact ''paper.jar'' ''010203'') ''/tmp/out'' False True)))
      = Stat ''/tmp/out/paper.jar''"
proof -
  let ?w = "example_world empty_disk (example_run [[1, 2], [3]])"
  let ?S = "case_option '''' id :: string option \<Rightarrow> string"
  note inst = Download_bad_artifact [where H = id and String = ?S and w = ?w
      and serverURL = "''https://api.papermc.io''" and project = "''paper''"
      and version = "''1.20.4''" and build = "''17''" and dstdir = "''/tmp/out''"
      and replace = False and quiet = True]
  have a: "Download id ?S ?w ''https://api.papermc.io'' ''paper'' ''1.20.4'' ''17'' None
        ''/tmp/out'' False True = (Some ''bad artifact'', ?w)"
    using inst [where artifact = None] by simp
  have b: "Download id ?S ?w ''https://api.papermc.io'' ''paper'' ''1.20.4'' ''17''
        (Some \<lparr> art_Application = None \<rparr>) ''/tmp/out'' False True = (Some ''bad artifact'', ?w)"
    using inst [where artifact = "Some \<lparr> art_Application = None \<rparr>"] by simp
  have c: "Download id ?S ?w ''https://api.papermc.io'' ''paper'' ''1.20.4'' ''17''
        (Some \<lparr> art_Application = Some \<lparr> app_Name = None, app_Sha256 = Some ''010203'' \<rparr> \<rparr>)
        ''/tmp/out'' False True = (Some ''bad artifact'', ?w)"
    using inst [where artifact =
        "Some \<lparr> art_Application = Some \<lparr> app_Name = None, app_Sha256 = Some ''010203'' \<rparr> \<rparr>"]
    by simp
  have d: "hd (w_effects (snd
        (Download id ?S ?w ''https://api.papermc.io'' ''paper'' ''1.20.4'' ''17''
           (example_artifact ''paper.jar'' ''010203'') ''/tmp/out'' False True)))
      = Stat ''/tmp/out/paper.jar''"
    using inst [where artifact = "example_artifact ''paper.jar'' ''010203''"]
    by (auto simp: example_artifact_def example_world_simps)
  from a b c d show ?thesis by simp
qed

text \<open>
  The claim as stated, for every artifact without a non-empty name, fails at the empty
  name: the guard lets it pass, \<^verbatim>\<open>os.Stat\<close> is called on \<^verbatim>\<open>/tmp/out/\<close>, which is the
  destination directory itself, and the call ends with the error of an existing
  destination; with \<^verbatim>\<open>replace\<close> set, a delete and a request follow the stat.
\<close>

theorem Download_empty_name:
  "fst (Download id (case_option '''' id)
          (example_world (empty_disk(''/tmp/out/'' := Exists Dir)) (example_run [[1, 2], [3]]))
          ''https://api.papermc.io'' ''paper'' ''1.20.4'' ''17''
          (example_artifact '''' ''010203'') ''/tmp/out'' False True)
     = Some ''/tmp/out/: already exists and -replace not specified''
   \<and> w_effects (snd (Download id (case_option '''' id)
          (example_world (empty_disk(''/tmp/out/'' := Exists Dir)) (example_run [[1, 2], [3]]))
          ''https://api.papermc.io'' ''paper'' ''1.20.4'' ''17''
          (example_artifact '''' ''010203'') ''/tmp/out'' False True))
     = [Stat ''/tmp/out/'']
   \<and> w_effects (snd (Download id (case_option '''' id)
          (example_world (empty_disk(''/tmp/out/'' := Exists Dir)) (example_run [[1, 2], [3]]))
          ''https://api.papermc.io'' ''paper'' ''1.20.4'' ''17''
          (example_artifact '''' ''010203'') ''/tmp/out'' True True))
     = [Stat ''/tmp/out/'', Remove ''/tmp/out/'',
        DownloadStream ''https://api.papermc.io/v2/projects/paper/versions/1.20.4/builds/17/downloads/''
          ''/tmp/out/'']"
  by (simp add: Download_def application_def example_artifact_def Download_stat_def
      Download_stream_effects example_world_simps Let_def)

text \<open>
  Claim C5. When the destination \<^verbatim>\<open>dstdir/name\<close> of an artifact that passes the guard
  already exists (\<^verbatim>\<open>os.Stat\<close> returns no error) and \<^verbatim>\<open>replace\<close> is false, \<^verbatim>\<open>Download\<close>
  fails with the error \<^verbatim>\<open>already exists and -replace not specified\<close>; the only call it
  has made is that \<^verbatim>\<open>os.Stat\<close>, so no request goes out, and the disk, the existing file
  included, is as before; nothing is printed.
\<close>

theorem Download_destination_exists:
  assumes "application artifact = Some app" and "app_Name app = Some n"
    and "w_fs w (dstdir @ ''/'' @ String (Some n)) = Exists node"
    and "\<not> replace"
  shows "fst (Download H String w serverURL project version build artifact dstdir replace quiet)
           = Some ((dstdir @ ''/'' @ String (Some n))
                     @ '': already exists and -replace not specified'')
       \<and> w_effects (snd
            (Download H String w serverURL project version build artifact dstdir replace quiet))
           = w_effects w @ [Stat (dstdir @ ''/'' @ String (Some n))]
       \<and> w_fs (snd
            (Download H String w serverURL project version build artifact dstdir replace quiet))
           = w_fs w
       \<and> w_stdout (snd
            (Download H String w serverURL project version build artifact dstdir replace quiet))
           = w_stdout w"
  using assms(3) assms(4)
  by (simp add: Download_guarded [OF assms(1) assms(2)] Download_stat_def Let_def)

text \<open>The theorem at a destination that holds a file of one byte.\<close>

theorem Download_destination_exists_witness:
  "application (example_artifact ''paper.jar'' ''010203'')
     = Some \<lparr> app_Name = Some ''paper.jar'', app_Sha256 = Some ''010203'' \<rparr>
   \<and> w_fs (example_world (empty_disk(''/tmp/out/paper.jar'' := Exists (File [7])))
             (example_run [[1, 2], [3]]))
        (''/tmp/out'' @ ''/'' @ case_option '''' id (Some ''paper.jar'')) = Exists (File [7])
   \<and> fst (Download id (case_option '''' id)
        (example_world (empty_disk(''/tmp/out/paper.jar'' := Exists (File [7])))
           (example_run [[1, 2], [3]]))
        ''https://api.papermc.io'' ''paper'' ''1.20.4'' ''17''
        (example_artifact ''paper.jar'' ''010203'') ''/tmp/out'' False True)
      = Some ''/tmp/out/paper.jar: already exists and -replace not specified''
   \<and> w_effects (snd (Download id (case_option '''' id)
        (example_world (empty_disk(''/tmp/out/paper.jar'' := Exists (File [7])))
           (example_run [[1, 2], [3]]))
        ''https://api.papermc.io'' ''paper'' ''1.20.4'' ''17''
        (example_artifact ''paper.jar'' ''010203'') ''/tmp/out'' False True))
      = [Stat ''/tmp/out/paper.jar'']
   \<and> w_fs (snd (Download id (case_option '''' id)
        (example_world (empty_disk(''/tmp/out/paper.jar'' := Exists (File [7])))
           (example_run [[1, 2], [3]]))
        ''https://api.papermc.io'' ''paper'' ''1.20.4'' ''17''
        (example_artifact ''paper.jar'' ''010203'') ''/tmp/out'' False True))
        ''/tmp/out/paper.jar'' = Exists (File [7])"
  using
    Download_destination_exists [where artifact = "example_artifact ''paper.jar'' ''010203''"
      and app = "\<lparr> app_Name = Some ''paper.jar'', app_Sha256 = Some ''010203'' \<rparr>"
      and n = "''paper.jar''" and dstdir = "''/tmp/out''" and String = "case_option '''' id"
      and w = "example_world (empty_disk(''/tmp/out/paper.jar'' := Exists (File [7])))
                 (example_run [[1, 2], [3]])"
      and node = "File [7]" and replace = False and H = id
      and serverURL = "''https://api.papermc.io''" and project = "''paper''"
      and version = "''1.20.4''" and build = "''17''" and quiet = True]
  by (simp add: example_application example_world_simps)

text \<open>
  Claim C1. When the artifact passes the guard, its expected checksum
  \<^verbatim>\<open>String(artifact.Application.Sha256)\<close> is not empty and the streaming copy completes
  (the stat block lets the call go on, that is the destination does not exist or is
  removed, and \<^verbatim>\<open>DownloadStream\<close> returns no error),
  \<^verbatim>\<open>Download\<close> returns nil if and only if the hex digest of the bytes handed to the
  writer, which is lowercase, equals the expected checksum as a string; when they differ
  it returns the error \<^verbatim>\<open><dst>: sha256 mismatch <computed> expected <expected>\<close>, which
  reports both digests. The final line printed reports the computed digest.
\<close>

theorem Download_verifies_checksum:
  assumes "application artifact = Some app" and "app_Name app = Some n"
    and "String (app_Sha256 app) \<noteq> ''''"
    and "fst (Download_stat w (dstdir @ ''/'' @ String (Some n)) replace) = None"
    and "w_stream w
           (serverURL @ ''/v2/projects/'' @ project @ ''/versions/'' @ version
              @ ''/builds/'' @ build @ ''/downloads/'' @ String (Some n))
           (dstdir @ ''/'' @ String (Some n)) = run"
    and "dl_err run = None"
  shows "(fst (Download H String w serverURL project version build artifact dstdir replace quiet)
            = None
          \<longleftrightarrow> hex_string (H (concat (dl_chunks run))) = String (app_Sha256 app))
       \<and> (hex_string (H (concat (dl_chunks run))) \<noteq> String (app_Sha256 app) \<longrightarrow>
            fst (Download H String w serverURL project version build artifact dstdir replace quiet)
              = Some ((dstdir @ ''/'' @ String (Some n)) @ '': sha256 mismatch ''
                        @ hex_string (H (concat (dl_chunks run)))
                        @ '' expected '' @ String (app_Sha256 app)))
       \<and> set (hex_string (H (concat (dl_chunks run)))) \<subseteq> set ''0123456789abcdef''
       \<and> (\<exists>total. last (w_stdout (snd
            (Download H String w serverURL project version build artifact dstdir replace quiet)))
           = Summary (serverURL @ ''/v2/projects/'' @ project @ ''/versions/'' @ version
                        @ ''/builds/'' @ build @ ''/downloads/'' @ String (Some n))
               (dstdir @ ''/'' @ String (Some n)) total
               (hex_string (H (concat (dl_chunks run)))))"
proof -
  note completed = Download_completed [where String = String and n = n and H = H
      and quiet = quiet, OF assms(1) assms(2) assms(4) assms(5) assms(6)]
  show ?thesis
    using assms(3) completed(1) completed(2)
      hex_string_lowercase [of "H (concat (dl_chunks run))"]
    by simp
qed

text \<open>
  The theorem at a run of three bytes in two slices, once with the matching checksum and
  once with another one; the identity stands in for SHA-256.
\<close>

theorem Download_verifies_checksum_witness:
  "application (example_artifact ''paper.jar'' ''010203'')
     = Some \<lparr> app_Name = Some ''paper.jar'', app_Sha256 = Some ''010203'' \<rparr>
   \<and> case_option '''' id (app_Sha256 \<lparr> app_Name = Some ''paper.jar'', app_Sha256 = Some ''010203'' \<rparr>)
       \<noteq> ''''
   \<and> fst (Download_stat (example_world empty_disk (example_run [[1, 2], [3]]))
          (''/tmp/out'' @ ''/'' @ case_option '''' id (Some ''paper.jar'')) False) = None
   \<and> dl_err (example_run [[1, 2], [3]]) = None
   \<and> hex_string (id (concat (dl_chunks (example_run [[1, 2], [3]])))) = ''010203''
   \<and> fst (Download id (case_option '''' id)
          (example_world empty_disk (example_run [[1, 2], [3]]))
          ''https://api.papermc.io'' ''paper'' ''1.20.4'' ''17''
          (example_artifact ''paper.jar'' ''010203'') ''/tmp/out'' False True) = None
   \<and> fst (Download id (case_option '''' id)
          (example_world empty_disk (example_run [[1, 2], [3]]))
          ''https://api.papermc.io'' ''paper'' ''1.20.4'' ''17''
          (example_artifact ''paper.jar'' ''010204'') ''/tmp/out'' False True)
       = Some ''/tmp/out/paper.jar: sha256 mismatch 010203 expected 010204''"
  using
    Download_verifies_checksum [where artifact = "example_artifact ''paper.jar'' ''010203''"
      and app = "\<lparr> app_Name = Some ''paper.jar'', app_Sha256 = Some ''010203'' \<rparr>"
      and n = "''paper.jar''" and dstdir = "''/tmp/out''" and String = "case_option '''' id"
      and w = "example_world empty_disk (example_run [[1, 2], [3]])"
      and run = "example_run [[1, 2], [3]]" and replace = False and H = id
      and serverURL = "''https://api.papermc.io''" and project = "''paper''"
      and version = "''1.20.4''" and build = "''17''" and quiet = True]
    Download_verifies_checksum [where artifact = "example_artifact ''paper.jar'' ''010204''"
      and app = "\<lparr> app_Name = Some ''paper.jar'', app_Sha256 = Some ''010204'' \<rparr>"
      and n = "''paper.jar''" and dstdir = "''/tmp/out''" and String = "case_option '''' id"
      and w = "example_world empty_disk (example_run [[1, 2], [3]])"
      and run = "example_run [[1, 2], [3]]" and replace = False and H = id
      and serverURL = "''https://api.papermc.io''" and project = "''paper''"
      and version = "''1.20.4''" and build = "''17''" and quiet = True]
  by (simp add: example_application example_world_simps example_run_simps example_stat_absent
      hex_string_example)

text \<open>
  Claim C2. When the artifact passes the guard, its expected checksum
  \<^verbatim>\<open>String(artifact.Application.Sha256)\<close> is empty (an empty or absent checksum) and the
  streaming copy completes, \<^verbatim>\<open>Download\<close> returns nil whatever was downloaded and
  whatever the digest is: the download has been made and the final line printed, and no
  comparison decides the result.
\<close>

theorem Download_skips_verification:
  assumes "application artifact = Some app" and "app_Name app = Some n"
    and "String (app_Sha256 app) = ''''"
    and "fst (Download_stat w (dstdir @ ''/'' @ String (Some n)) replace) = None"
    and "w_stream w
           (serverURL @ ''/v2/projects/'' @ project @ ''/versions/'' @ version
              @ ''/builds/'' @ build @ ''/downloads/'' @ String (Some n))
           (dstdir @ ''/'' @ String (Some n)) = run"
    and "dl_err run = None"
  shows "fst (Download H String w serverURL project version build artifact dstdir replace quiet)
           = None
       \<and> last (w_effects (snd
            (Download H String w serverURL project version build artifact dstdir replace quiet)))
           = DownloadStream
               (serverURL @ ''/v2/projects/'' @ project @ ''/versions/'' @ version
                  @ ''/builds/'' @ build @ ''/downloads/'' @ String (Some n))
               (dstdir @ ''/'' @ String (Some n))
       \<and> (\<exists>total. last (w_stdout (snd
            (Download H String w serverURL project version build artifact dstdir replace quiet)))
           = Summary (serverURL @ ''/v2/projects/'' @ project @ ''/versions/'' @ version
                        @ ''/builds/'' @ build @ ''/downloads/'' @ String (Some n))
               (dstdir @ ''/'' @ String (Some n)) total
               (hex_string (H (concat (dl_chunks run)))))"
proof -
  note completed = Download_completed [where String = String and n = n and H = H
      and quiet = quiet, OF assms(1) assms(2) assms(4) assms(5) assms(6)]
  show ?thesis
    using assms(3) completed by simp
qed

text \<open>
  The theorem at the same run, for an artifact with the empty checksum and for one whose
  checksum pointer is nil.
\<close>

theorem Download_skips_verification_witness:
  "application (example_artifact ''paper.jar'' '''')
     = Some \<lparr> app_Name = Some ''paper.jar'', app_Sha256 = Some '''' \<rparr>
   \<and> case_option '''' id (app_Sha256 \<lparr> app_Name = Some ''paper.jar'', app_Sha256 = Some '''' \<rparr>)
       = ''''
   \<and> case_option '''' id (app_Sha256 \<lparr> app_Name = Some ''paper.jar'', app_Sha256 = None \<rparr>)
       = ''''
   \<and> fst (Download_stat (example_world empty_disk (example_run [[1, 2], [3]]))
          (''/tmp/out'' @ ''/'' @ case_option '''' id (Some ''paper.jar'')) False) = None
   \<and> dl_err (example_run [[1, 2], [3]]) = None
   \<and> fst (Download id (case_option '''' id)
          (example_world empty_disk (example_run [[1, 2], [3]]))
          ''https://api.papermc.io'' ''paper'' ''1.20.4'' ''17''
          (example_artifact ''paper.jar'' '''') ''/tmp/out'' False True) = None
   \<and> fst (Download id (case_option '''' id)
          (example_world empty_disk (example_run [[1, 2], [3]]))
          ''https://api.papermc.io'' ''paper'' ''1.20.4'' ''17''
          (Some \<lparr> art_Application = Some \<lparr> app_Name = Some ''paper.jar'', app_Sha256 = None \<rparr> \<rparr>)
          ''/tmp/out'' False True) = None"
  using
    Download_skips_verification [where artifact = "example_artifact ''paper.jar'' ''''"
      and app = "\<lparr> app_Name = Some ''paper.jar'', app_Sha256 = Some '''' \<rparr>"
      and n = "''paper.jar''" and dstdir = "''/tmp/out''" and String = "case_option '''' id"
      and w = "example_world empty_disk (example_run [[1, 2], [3]])"
      and run = "example_run [[1, 2], [3]]" and replace = False and H = id
      and serverURL = "''https://api.papermc.io''" and project = "''paper''"
      and version = "''1.20.4''" and build = "''17''" and quiet = True]
    Download_skips_verification [where
      artifact = "Some \<lparr> art_Application = Some \<lparr> app_Name = Some ''paper.jar'', app_Sha256 = None \<rparr> \<rparr>"
      and app = "\<lparr> app_Name = Some ''paper.jar'', app_Sha256 = None \<rparr>"
      and n = "''paper.jar''" and dstdir = "''/tmp/out''" and String = "case_option '''' id"
      and w = "example_world empty_disk (example_run [[1, 2], [3]])"
      and run = "example_run [[1, 2], [3]]" and replace = False and H = id
      and serverURL = "''https://api.papermc.io''" and project = "''paper''"
      and version = "''1.20.4''" and build = "''17''" and quiet = True]
  by (simp add: example_world_simps example_run_simps example_stat_absent
      application_def example_artifact_def)

text \<open>
  Claim C8. For a call of \<^verbatim>\<open>Download\<close> with an artifact that passes the guard, every
  download it starts is of the URL
  \<^verbatim>\<open>{serverBase}/v2/projects/{project}/versions/{version}/builds/{build}/downloads/{artifactName}\<close>
  with the name of the artifact's application, to the path \<^verbatim>\<open>dstdir/name\<close>; and that
  download is started whenever the stat block lets the call go on.
\<close>

theorem Download_source_url:
  assumes "application artifact = Some app" and "app_Name app = Some n"
  shows "\<exists>es. w_effects (snd
             (Download H String w serverURL project version build artifact dstdir replace quiet))
           = w_effects w @ es
       \<and> (\<forall>u p. DownloadStream u p \<in> set es \<longrightarrow>
             u = serverURL @ ''/v2/projects/'' @ project @ ''/versions/'' @ version
                  @ ''/builds/'' @ build @ ''/downloads/'' @ String (Some n)
             \<and> p = dstdir @ ''/'' @ String (Some n))
       \<and> (fst (Download_stat w (dstdir @ ''/'' @ String (Some n)) replace) = None \<longrightarrow>
             DownloadStream
               (serverURL @ ''/v2/projects/'' @ project @ ''/versions/'' @ version
                  @ ''/builds/'' @ build @ ''/downloads/'' @ String (Some n))
               (dstdir @ ''/'' @ String (Some n)) \<in> set es)"
proof -
  let ?dst = "dstdir @ ''/'' @ String (Some n)"
  let ?src = "serverURL @ ''/v2/projects/'' @ project @ ''/versions/'' @ version
                  @ ''/builds/'' @ build @ ''/downloads/'' @ String (Some n)"
  let ?w1 = "snd (Download_stat w ?dst replace)"
  obtain es1 where pre: "w_effects ?w1 = w_effects w @ es1"
    and quiet_net: "\<forall>u p. DownloadStream u p \<notin> set es1"
    using Download_stat_effects by blast
  show ?thesis
  proof (cases "fst (Download_stat w ?dst replace)")
    case (Some err)
    then have "snd (Download H String w serverURL project version build artifact dstdir replace quiet)
        = ?w1"
      by (simp add: Download_guarded [OF assms])
    with pre quiet_net Some show ?thesis by auto
  next
    case None
    then have run: "Download H String w serverURL project version build artifact dstdir replace quiet
        = Download_stream H String ?w1 ?src ?dst app quiet"
      by (simp add: Download_guarded [OF assms])
    have "w_effects (snd
          (Download H String w serverURL project version build artifact dstdir replace quiet))
          = w_effects w @ (es1 @ [DownloadStream ?src ?dst])"
      unfolding run Download_stream_effects pre by simp
    moreover have "\<forall>u p. DownloadStream u p \<in> set (es1 @ [DownloadStream ?src ?dst]) \<longrightarrow>
          u = ?src \<and> p = ?dst"
      using quiet_net by auto
    moreover have "DownloadStream ?src ?dst \<in> set (es1 @ [DownloadStream ?src ?dst])"
      by simp
    ultimately show ?thesis by blast
  qed
qed

text \<open>The theorem at the server \<^verbatim>\<open>https://api.papermc.io\<close>, project paper, build 17.\<close>

theorem Download_source_url_witness:
  "application (example_artifact ''paper.jar'' ''010203'')
     = Some \<lparr> app_Name = Some ''paper.jar'', app_Sha256 = Some ''010203'' \<rparr>
   \<and> fst (Download_stat (example_world empty_disk (example_run [[1, 2], [3]]))
          (''/tmp/out'' @ ''/'' @ case_option '''' id (Some ''paper.jar'')) False) = None
   \<and> DownloadStream
        ''https://api.papermc.io/v2/projects/paper/versions/1.20.4/builds/17/downloads/paper.jar''
        ''/tmp/out/paper.jar''
       \<in> set (w_effects (snd (Download id (case_option '''' id)
            (example_world empty_disk (example_run [[1, 2], [3]]))
            ''https://api.papermc.io'' ''paper'' ''1.20.4'' ''17''
            (example_artifact ''paper.jar'' ''010203'') ''/tmp/out'' False True)))"
  using
    Download_source_url [where artifact = "example_artifact ''paper.jar'' ''010203''"
      and app = "\<lparr> app_Name = Some ''paper.jar'', app_Sha256 = Some ''010203'' \<rparr>"
      and n = "''paper.jar''" and dstdir = "''/tmp/out''" and String = "case_option '''' id"
      and w = "example_world empty_disk (example_run [[1, 2], [3]])"
      and replace = False and H = id
      and serverURL = "''https://api.papermc.io''" and project = "''paper''"
      and version = "''1.20.4''" and build = "''17''" and quiet = True]
  by (auto simp: example_application example_world_simps example_stat_absent)

end
